theory Spec2Isabelle
  imports Complex_Main
begin

section \<open>Product API: validation-and-persistence request pipeline\<close>

text \<open>
  A shallow embedding of the route handlers of the product API
  (\<^verbatim>\<open>app/api/products/route.ts\<close>, \<^verbatim>\<open>app/api/products/[id]/route.ts\<close>,
  \<^verbatim>\<open>app/api/products/dashboard/route.ts\<close>), of \<^verbatim>\<open>connectToDB\<close>
  (\<^verbatim>\<open>lib/database/database.ts\<close>) and of \<^verbatim>\<open>productSchema\<close>
  (\<^verbatim>\<open>lib/utils/validation.ts\<close>).
\<close>

subsection \<open>JSON values\<close>

text \<open>
  The value \<^verbatim>\<open>req.json()\<close> yields: a decoded JSON document. Numbers are the
  decoded numeric values; an object is the list of its own properties, each key once,
  read with \<open>map_of\<close>.
\<close>

datatype json =
    JNull
  | JBool bool
  | JNum real
  | JStr string
  | JArr "json list"
  | JObj "(string \<times> json) list"

subsection \<open>The schema library's checks, as \<^verbatim>\<open>productSchema\<close> uses them\<close>

text \<open>
  The schema library is not among the repository's files. The combinators that
  \<^verbatim>\<open>productSchema\<close> is built from are written here as the library behaves: a parser
  checks the type of its input first, then runs every chained check and collects an
  issue for each one that fails; an issue carries a code, the path of the key and a
  message.
\<close>

datatype ZodIssueCode = invalid_type | too_small | invalid_string | invalid_enum_value

record ZodIssue =
  code :: ZodIssueCode
  path :: "string list"
  message :: string

text \<open>The name the schema library gives to the type of a decoded value.\<close>

fun parsedType :: "json \<Rightarrow> string" where
  "parsedType JNull = ''null''"
| "parsedType (JBool b) = ''boolean''"
| "parsedType (JNum n) = ''number''"
| "parsedType (JStr s) = ''string''"
| "parsedType (JArr xs) = ''array''"
| "parsedType (JObj kvs) = ''object''"

text \<open>
  An \<^verbatim>\<open>invalid_type\<close> issue: the message is \<^verbatim>\<open>Required\<close> when the property is
  absent (\<open>None\<close>, the value \<^verbatim>\<open>undefined\<close>).
\<close>

definition invalidType :: "string list \<Rightarrow> string \<Rightarrow> json option \<Rightarrow> ZodIssue" where
  "invalidType p expected v =
     \<lparr>code = invalid_type, path = p,
      message = (case v of
                   None \<Rightarrow> ''Required''
                 | Some j \<Rightarrow> ''Expected '' @ expected @ '', received '' @ parsedType j)\<rparr>"

text \<open>
  The checks chained on a \<^verbatim>\<open>z.string()\<close>: \<^verbatim>\<open>.min(n, msg)\<close> and \<^verbatim>\<open>.url()\<close>.
  The library decides \<^verbatim>\<open>.url()\<close> by whether the platform's \<^verbatim>\<open>new URL(s)\<close>
  throws; that parser is the parameter \<open>isURL\<close>.
\<close>

datatype StringCheck = Min nat string | Url

fun checkString :: "(string \<Rightarrow> bool) \<Rightarrow> string list \<Rightarrow> string \<Rightarrow> StringCheck \<Rightarrow> ZodIssue list" where
  "checkString isURL p s (Min n msg) =
     (if length s < n then [\<lparr>code = too_small, path = p, message = msg\<rparr>] else [])"
| "checkString isURL p s Url =
     (if isURL s then [] else [\<lparr>code = invalid_string, path = p, message = ''Invalid url''\<rparr>])"

text \<open>
  \<^verbatim>\<open>z.string()\<close> with its checks: a value that is not a string gives one
  \<^verbatim>\<open>invalid_type\<close> issue and no check runs; on a string every check runs, in the
  order they were chained, and each failing check adds an issue.
\<close>

fun zString :: "(string \<Rightarrow> bool) \<Rightarrow> StringCheck list \<Rightarrow> string list \<Rightarrow> json option \<Rightarrow> ZodIssue list" where
  "zString isURL checks p (Some (JStr s)) = concat (map (checkString isURL p s) checks)"
| "zString isURL checks p v = [invalidType p ''string'' v]"

text \<open>\<^verbatim>\<open>z.number().min(n, msg)\<close>: inclusive lower bound.\<close>

fun zNumberMin :: "real \<Rightarrow> string \<Rightarrow> string list \<Rightarrow> json option \<Rightarrow> ZodIssue list" where
  "zNumberMin n msg p (Some (JNum x)) =
     (if x < n then [\<lparr>code = too_small, path = p, message = msg\<rparr>] else [])"
| "zNumberMin n msg p v = [invalidType p ''number'' v]"

text \<open>The options of an enum, joined as the library prints them.\<close>

fun joinValues :: "string list \<Rightarrow> string" where
  "joinValues [] = []"
| "joinValues [x] = [CHR 0x27] @ x @ [CHR 0x27]"
| "joinValues (x # xs) = [CHR 0x27] @ x @ [CHR 0x27] @ '' | '' @ joinValues xs"

fun zEnum :: "string list \<Rightarrow> string list \<Rightarrow> json option \<Rightarrow> ZodIssue list" where
  "zEnum options p (Some (JStr s)) =
     (if s \<in> set options then []
      else [\<lparr>code = invalid_enum_value, path = p,
             message = ''Invalid enum value. Expected '' @ joinValues options
                       @ '', received '' @ [CHR 0x27] @ s @ [CHR 0x27]\<rparr>])"
| "zEnum options p v = [invalidType p (joinValues options) v]"

subsection \<open>\<^verbatim>\<open>productSchema\<close>\<close>

text \<open>The output of a successful parse: the six declared keys, unknown keys stripped.\<close>

record ProductData =
  title :: string
  description :: string
  category :: string
  imageUrl :: string
  price :: real
  creator :: string

definition categories :: "string list" where
  "categories = [''men'', ''women'', ''electronics'', ''jewelry'']"

fun strOf :: "json option \<Rightarrow> string" where
  "strOf (Some (JStr s)) = s"
| "strOf v = []"

fun numOf :: "json option \<Rightarrow> real" where
  "numOf (Some (JNum x)) = x"
| "numOf v = 0"

text \<open>
  The issues of the six keys of an object, in the order the schema declares them.
\<close>

definition shapeIssues :: "(string \<Rightarrow> bool) \<Rightarrow> (string \<times> json) list \<Rightarrow> ZodIssue list" where
  "shapeIssues isURL kvs =
     zString isURL [Min 1 ''Title is required''] [''title''] (map_of kvs ''title'')
   @ zString isURL [Min 1 ''Description is required''] [''description''] (map_of kvs ''description'')
   @ zEnum categories [''category''] (map_of kvs ''category'')
   @ zString isURL [Url, Min 1 ''Image URL is required''] [''imageUrl''] (map_of kvs ''imageUrl'')
   @ zNumberMin 1 ''Price is required'' [''price''] (map_of kvs ''price'')
   @ zString isURL [Min 1 ''Creator is required''] [''creator''] (map_of kvs ''creator'')"

text \<open>
  \<^verbatim>\<open>productSchema.safeParse(body)\<close>: \<open>Inl\<close> carries \<^verbatim>\<open>error.issues\<close>, \<open>Inr\<close>
  carries \<^verbatim>\<open>data\<close>. A body that is not an object gives a single issue with the
  empty path.
\<close>

fun productSchema :: "(string \<Rightarrow> bool) \<Rightarrow> json \<Rightarrow> ZodIssue list + ProductData" where
  "productSchema isURL (JObj kvs) =
     (if shapeIssues isURL kvs = []
      then Inr \<lparr>title = strOf (map_of kvs ''title''),
                description = strOf (map_of kvs ''description''),
                category = strOf (map_of kvs ''category''),
                imageUrl = strOf (map_of kvs ''imageUrl''),
                price = numOf (map_of kvs ''price''),
                creator = strOf (map_of kvs ''creator'')\<rparr>
      else Inl (shapeIssues isURL kvs))"
| "productSchema isURL v = Inl [invalidType [] ''object'' (Some v)]"

text \<open>\<^verbatim>\<open>issue.path[0]\<close>: the field an issue names, \<open>None\<close> on the empty path.\<close>

fun fieldOf :: "ZodIssue \<Rightarrow> string option" where
  "fieldOf i = (case path i of [] \<Rightarrow> None | k # ks \<Rightarrow> Some k)"

subsection \<open>The rules of the specification, field by field\<close>

text \<open>
  The acceptance rule in the specification's words: title, description and creator are
  non-empty strings, category is one of the four values, imageUrl is a non-empty string
  that parses as a URL, price is a number that is at least 1. \<open>property\<close> reads a key
  of a payload; a payload that is not an object has no keys.
\<close>

definition property :: "json \<Rightarrow> string \<Rightarrow> json option" where
  "property payload k = (case payload of JObj kvs \<Rightarrow> map_of kvs k | _ \<Rightarrow> None)"

fun nonEmptyString :: "json option \<Rightarrow> bool" where
  "nonEmptyString (Some (JStr s)) = (s \<noteq> [])"
| "nonEmptyString v = False"

fun oneOf :: "string list \<Rightarrow> json option \<Rightarrow> bool" where
  "oneOf options (Some (JStr s)) = (s \<in> set options)"
| "oneOf options v = False"

fun nonEmptyUrl :: "(string \<Rightarrow> bool) \<Rightarrow> json option \<Rightarrow> bool" where
  "nonEmptyUrl isURL (Some (JStr s)) = (s \<noteq> [] \<and> isURL s)"
| "nonEmptyUrl isURL v = False"

fun numberAtLeast :: "real \<Rightarrow> json option \<Rightarrow> bool" where
  "numberAtLeast n (Some (JNum x)) = (n \<le> x)"
| "numberAtLeast n v = False"

definition schemaFields :: "string list" where
  "schemaFields = [''title'', ''description'', ''category'', ''imageUrl'', ''price'', ''creator'']"

definition fieldOk :: "(string \<Rightarrow> bool) \<Rightarrow> json \<Rightarrow> string \<Rightarrow> bool" where
  "fieldOk isURL payload k =
     (if k = ''category'' then oneOf categories (property payload k)
      else if k = ''imageUrl'' then nonEmptyUrl isURL (property payload k)
      else if k = ''price'' then numberAtLeast 1 (property payload k)
      else nonEmptyString (property payload k))"

text \<open>The fields of a payload that break their rule, in the schema's order.\<close>

definition violating :: "(string \<Rightarrow> bool) \<Rightarrow> json \<Rightarrow> string list" where
  "violating isURL payload = filter (\<lambda>k. \<not> fieldOk isURL payload k) schemaFields"

fun issuesOf :: "ZodIssue list + ProductData \<Rightarrow> ZodIssue list" where
  "issuesOf (Inl is) = is"
| "issuesOf (Inr d) = []"

text \<open>
  How many issues a violating field gets: two for an \<^verbatim>\<open>imageUrl\<close> that is the empty
  string when the empty string does not parse as a URL (both chained checks fail), one
  otherwise.
\<close>

definition errorsFor :: "(string \<Rightarrow> bool) \<Rightarrow> json \<Rightarrow> string \<Rightarrow> nat" where
  "errorsFor isURL payload k =
     (if k = ''imageUrl'' \<and> property payload k = Some (JStr []) \<and> \<not> isURL [] then 2 else 1)"

text \<open>The rules on the data a successful parse returns.\<close>

definition validData :: "(string \<Rightarrow> bool) \<Rightarrow> ProductData \<Rightarrow> bool" where
  "validData isURL d =
     (title d \<noteq> [] \<and> description d \<noteq> [] \<and> category d \<in> set categories
      \<and> imageUrl d \<noteq> [] \<and> isURL (imageUrl d) \<and> 1 \<le> price d \<and> creator d \<noteq> [])"

subsection \<open>Identifier validator\<close>

text \<open>
  Modelled from the spec: \<^verbatim>\<open>mongoose.Types.ObjectId.isValid\<close> belongs to the database
  driver and is not among the repository's files. The specification (4.1) gives its
  contract: a pure function from strings to booleans that accepts the store's identifier
  format, 24-character hexadecimal, and rejects every other string without failing.
  A hexadecimal character is one in the ranges \<^verbatim>\<open>0-9\<close>, \<^verbatim>\<open>a-f\<close>, \<^verbatim>\<open>A-F\<close>.
\<close>

definition isHexDigit :: "char \<Rightarrow> bool" where
  "isHexDigit c =
     (let n = (of_char c :: nat)
      in (48 \<le> n \<and> n \<le> 57) \<or> (97 \<le> n \<and> n \<le> 102) \<or> (65 \<le> n \<and> n \<le> 70))"

definition isValid :: "string \<Rightarrow> bool" where
  "isValid ident = (length ident = 24 \<and> list_all isHexDigit ident)"

subsection \<open>Exceptions, the store and the world a handler runs in\<close>

text \<open>
  An error raised by the database driver: its name, its message and its own enumerable
  properties (server code, code name, failing value and so on).
\<close>

record DriverError =
  errName :: string
  errMessage :: string
  errProps :: "(string \<times> json) list"

text \<open>
  What a \<^verbatim>\<open>catch (error)\<close> of a handler can receive: the \<^verbatim>\<open>SyntaxError\<close> of
  \<^verbatim>\<open>req.json()\<close> on a body that is not JSON, a plain \<^verbatim>\<open>new Error(msg)\<close>, the model's
  validation error at \<^verbatim>\<open>save()\<close>, an error of the driver, or a \<^verbatim>\<open>ZodError\<close> (with its
  first issue and the rest).
\<close>

datatype exn =
    SyntaxError
  | Error string
  | ValidationError
  | Driver DriverError
  | ZodError ZodIssue "ZodIssue list"

record doc =
  oid :: string
  docData :: ProductData
  createdAt :: nat
  updatedAt :: nat

text \<open>
  The calls a handler makes, in order: reading the request body, running the schema, a
  dial of the database (with whether it established the connection), and the operations
  on the \<^verbatim>\<open>Product\<close> model. \<open>Find None\<close> is the query \<^verbatim>\<open>{}\<close>, \<open>Find (Some c)\<close> the
  query \<^verbatim>\<open>{ creator: c }\<close>.
\<close>

datatype event =
    ReqJson
  | SafeParse
  | Dial bool
  | Find "string option"
  | FindById string
  | Save ProductData
  | FindByIdAndUpdate string ProductData
  | FindByIdAndDelete string

text \<open>
  The process and the store: whether the driver's connection is established, the
  documents of the collection, the calls made so far, and the server's console (a label
  and the error printed with it, if any).
\<close>

record world =
  ready :: bool
  docs :: "doc list"
  trace :: "event list"
  console :: "(string \<times> exn option) list"

text \<open>
  What the surroundings decide during one request: whether a string parses as a URL,
  whether a dial fails and whether a store operation fails (and with which error), the
  identifier given to a new document and the time.
\<close>

record env =
  urlParses :: "string \<Rightarrow> bool"
  dial :: "DriverError option"
  storeFault :: "DriverError option"
  freshId :: string
  clock :: nat

definition logTo :: "string \<Rightarrow> exn option \<Rightarrow> world \<Rightarrow> world" where
  "logTo label e w = w\<lparr>console := console w @ [(label, e)]\<rparr>"

definition record_event :: "event \<Rightarrow> world \<Rightarrow> world" where
  "record_event ev w = w\<lparr>trace := trace w @ [ev]\<rparr>"

subsection \<open>Connection manager\<close>

text \<open>
  Modelled from the spec: \<^verbatim>\<open>mongoose.connect\<close> belongs to the database driver and is
  not among the repository's files. The specification (4.3) gives the contract of
  connecting: if already connected, it returns immediately without re-dialing;
  otherwise it dials, and a failure to reach the store is an error.
\<close>

definition mongooseConnect :: "env \<Rightarrow> world \<Rightarrow> (exn + unit) \<times> world" where
  "mongooseConnect e w =
     (if ready w then (Inr (), w)
      else case dial e of
             None \<Rightarrow> (Inr (), record_event (Dial True) (w\<lparr>ready := True\<rparr>))
           | Some err \<Rightarrow> (Inl (Driver err), record_event (Dial False) w))"

text \<open>\<^verbatim>\<open>connectToDB\<close> of \<^verbatim>\<open>lib/database/database.ts\<close>.\<close>

definition connectToDB :: "env \<Rightarrow> world \<Rightarrow> (exn + unit) \<times> world" where
  "connectToDB e w =
     (case mongooseConnect e w of
        (Inr u, w1) \<Rightarrow> (Inr (), logTo ''connected to MongoDB'' None w1)
      | (Inl err, w1) \<Rightarrow>
          (Inl (Error ''Failed to connect to mongoDb''),
           logTo ''Failed to connect to MongoDB:'' (Some err) w1))"

text \<open>A sequence of calls, each in its own surroundings.\<close>

fun connectAll :: "env list \<Rightarrow> world \<Rightarrow> world" where
  "connectAll [] w = w"
| "connectAll (e # es) w = connectAll es (snd (connectToDB e w))"

definition established :: "world \<Rightarrow> nat" where
  "established w = length (filter (\<lambda>ev. ev = Dial True) (trace w))"

definition dialled :: "world \<Rightarrow> nat" where
  "dialled w = length (filter (\<lambda>ev. ev = Dial True \<or> ev = Dial False) (trace w))"

subsection \<open>The \<^verbatim>\<open>Product\<close> model\<close>

text \<open>
  The rules of the model's own schema (\<^verbatim>\<open>ProductSchema\<close>), which \<^verbatim>\<open>save()\<close> checks
  before it writes: every key is required (for a string: not empty) and the category is
  one of the four values.
\<close>

definition modelValid :: "ProductData \<Rightarrow> bool" where
  "modelValid d =
     (title d \<noteq> [] \<and> description d \<noteq> [] \<and> category d \<noteq> [] \<and> category d \<in> set categories
      \<and> imageUrl d \<noteq> [] \<and> creator d \<noteq> [])"

text \<open>
  Modelled from the spec: the operations of the \<^verbatim>\<open>Product\<close> model belong to the
  database driver and are not among the repository's files. The specification (4.4)
  gives their contract: find by exact match of the filter (the empty filter finds all),
  find, update and delete by identifier, and create; each is one call to the store, which
  either fails with the store's error or answers.
  \<open>updateFirst\<close> and \<open>removeFirst\<close> change the one document a query by identifier
  finds.
\<close>

fun updateFirst :: "('a \<Rightarrow> bool) \<Rightarrow> ('a \<Rightarrow> 'a) \<Rightarrow> 'a list \<Rightarrow> 'a list" where
  "updateFirst P f [] = []"
| "updateFirst P f (x # xs) = (if P x then f x # xs else x # updateFirst P f xs)"

fun removeFirst :: "('a \<Rightarrow> bool) \<Rightarrow> 'a list \<Rightarrow> 'a list" where
  "removeFirst P [] = []"
| "removeFirst P (x # xs) = (if P x then xs else x # removeFirst P xs)"

definition matching :: "string option \<Rightarrow> doc list \<Rightarrow> doc list" where
  "matching q ds = (case q of None \<Rightarrow> ds | Some c \<Rightarrow> filter (\<lambda>d. creator (docData d) = c) ds)"

definition Product_find :: "env \<Rightarrow> string option \<Rightarrow> world \<Rightarrow> (exn + doc list) \<times> world" where
  "Product_find e q w =
     (case storeFault e of
        Some err \<Rightarrow> (Inl (Driver err), record_event (Find q) w)
      | None \<Rightarrow> (Inr (matching q (docs w)), record_event (Find q) w))"

definition Product_findById :: "env \<Rightarrow> string \<Rightarrow> world \<Rightarrow> (exn + doc option) \<times> world" where
  "Product_findById e ident w =
     (case storeFault e of
        Some err \<Rightarrow> (Inl (Driver err), record_event (FindById ident) w)
      | None \<Rightarrow> (Inr (find (\<lambda>d. oid d = ident) (docs w)), record_event (FindById ident) w))"

definition Product_save :: "env \<Rightarrow> ProductData \<Rightarrow> world \<Rightarrow> (exn + doc) \<times> world" where
  "Product_save e d w =
     (if \<not> modelValid d then (Inl ValidationError, w)
      else case storeFault e of
             Some err \<Rightarrow> (Inl (Driver err), record_event (Save d) w)
           | None \<Rightarrow>
               (let new = \<lparr>oid = freshId e, docData = d, createdAt = clock e, updatedAt = clock e\<rparr>
                in (Inr new, record_event (Save d) (w\<lparr>docs := docs w @ [new]\<rparr>))))"

definition Product_findByIdAndUpdate ::
  "env \<Rightarrow> string \<Rightarrow> ProductData \<Rightarrow> world \<Rightarrow> (exn + doc option) \<times> world" where
  "Product_findByIdAndUpdate e ident d w =
     (case storeFault e of
        Some err \<Rightarrow> (Inl (Driver err), record_event (FindByIdAndUpdate ident d) w)
      | None \<Rightarrow>
          (let upd = (\<lambda>x. x\<lparr>docData := d, updatedAt := clock e\<rparr>)
           in (Inr (map_option upd (find (\<lambda>x. oid x = ident) (docs w))),
               record_event (FindByIdAndUpdate ident d)
                 (w\<lparr>docs := updateFirst (\<lambda>x. oid x = ident) upd (docs w)\<rparr>))))"

definition Product_findByIdAndDelete :: "env \<Rightarrow> string \<Rightarrow> world \<Rightarrow> (exn + doc option) \<times> world" where
  "Product_findByIdAndDelete e ident w =
     (case storeFault e of
        Some err \<Rightarrow> (Inl (Driver err), record_event (FindByIdAndDelete ident) w)
      | None \<Rightarrow>
          (Inr (find (\<lambda>x. oid x = ident) (docs w)),
           record_event (FindByIdAndDelete ident)
             (w\<lparr>docs := removeFirst (\<lambda>x. oid x = ident) (docs w)\<rparr>)))"

subsection \<open>Responses\<close>

text \<open>
  The value a handler gives to \<^verbatim>\<open>NextResponse.json\<close>: strings, arrays and objects, and
  at the leaves the things the handlers put there as they are: a document, a raw issue
  of the schema library, a caught error, the \<^verbatim>\<open>Product\<close> model, or \<^verbatim>\<open>undefined\<close>.
\<close>

datatype jsval =
    VUndefined
  | VStr string
  | VArr "jsval list"
  | VObj "(string \<times> jsval) list"
  | VDoc doc
  | VIssue ZodIssue
  | VExn exn
  | VModel

record response =
  status :: nat
  body :: jsval

definition errorBody :: "string \<Rightarrow> jsval" where
  "errorBody msg = VObj [(''error'', VStr msg)]"

text \<open>The two error envelopes of the interface: an error string, or a list of field errors.\<close>

fun isFieldError :: "jsval \<Rightarrow> bool" where
  "isFieldError (VObj [(k1, VStr f), (k2, VStr m)]) = (k1 = ''field'' \<and> k2 = ''message'')"
| "isFieldError v = False"

fun isErrorEnvelope :: "jsval \<Rightarrow> bool" where
  "isErrorEnvelope (VObj [(k, VStr msg)]) = (k = ''error'')"
| "isErrorEnvelope (VObj [(k, VArr es)]) = (k = ''errors'' \<and> list_all isFieldError es)"
| "isErrorEnvelope v = False"

subsection \<open>Handlers of \<^verbatim>\<open>/api/products\<close>\<close>

definition GET_products_catch :: "exn \<Rightarrow> world \<Rightarrow> response \<times> world" where
  "GET_products_catch err w =
     (\<lparr>status = 500,
       body = VObj [(''error'', VStr ''Failed to retrieve products''), (''details'', VExn err)]\<rparr>,
      logTo ''products Retrieval Error:'' (Some err) w)"

definition GET_products :: "env \<Rightarrow> world \<Rightarrow> response \<times> world" where
  "GET_products e w =
     (case connectToDB e w of
        (Inl err, w1) \<Rightarrow> GET_products_catch err w1
      | (Inr u, w1) \<Rightarrow>
          (case Product_find e None w1 of
             (Inl err, w2) \<Rightarrow> GET_products_catch err w2
           | (Inr products, w2) \<Rightarrow> (\<lparr>status = 200, body = VArr (map VDoc products)\<rparr>, w2)))"

text \<open>The \<^verbatim>\<open>{ field: issue.path[0], message: issue.message }\<close> of the POST handler.\<close>

definition fieldError :: "ZodIssue \<Rightarrow> jsval" where
  "fieldError i =
     VObj [(''field'', (case path i of [] \<Rightarrow> VUndefined | k # ks \<Rightarrow> VStr k)),
           (''message'', VStr (message i))]"

fun POST_catch :: "exn \<Rightarrow> world \<Rightarrow> response \<times> world" where
  "POST_catch (ZodError i rest) w =
     (\<lparr>status = 400, body = errorBody (message i)\<rparr>,
      logTo ''Input validation error:'' (Some (ZodError i rest)) w)"
| "POST_catch err w =
     (\<lparr>status = 500, body = errorBody ''Failed to create product''\<rparr>,
      logTo ''Error during product creation:'' (Some err) w)"

text \<open>
  The request body is what \<^verbatim>\<open>req.json()\<close> makes of it: \<open>Some\<close> of the decoded
  document, or \<open>None\<close> for a body that is not JSON, on which \<^verbatim>\<open>req.json()\<close> throws.
\<close>

definition POST_products :: "env \<Rightarrow> json option \<Rightarrow> world \<Rightarrow> response \<times> world" where
  "POST_products e reqBody w =
     (case reqBody of
        None \<Rightarrow> POST_catch SyntaxError (record_event ReqJson w)
      | Some b \<Rightarrow>
          (let w1 = record_event SafeParse (record_event ReqJson w)
           in case productSchema (urlParses e) b of
                Inl issues \<Rightarrow>
                  (\<lparr>status = 400, body = VObj [(''errors'', VArr (map fieldError issues))]\<rparr>, w1)
              | Inr d \<Rightarrow>
                  (case connectToDB e w1 of
                     (Inl err, w2) \<Rightarrow> POST_catch err w2
                   | (Inr u, w2) \<Rightarrow>
                       (case Product_save e
                               \<lparr>title = title d, description = description d,
                                category = category d, imageUrl = imageUrl d,
                                price = price d, creator = creator d\<rparr> w2 of
                          (Inl err, w3) \<Rightarrow> POST_catch err w3
                        | (Inr saved, w3) \<Rightarrow>
                            (\<lparr>status = 201, body = VStr ''product has been created''\<rparr>, w3)))))"

subsection \<open>Handler of \<^verbatim>\<open>/api/products/dashboard\<close>\<close>

definition GET_dashboard_catch :: "exn \<Rightarrow> world \<Rightarrow> response \<times> world" where
  "GET_dashboard_catch err w =
     (\<lparr>status = 500, body = errorBody ''Failed to fetch products''\<rparr>,
      logTo ''products Retrieval Error:'' (Some err) w)"

text \<open>
  The query string is the list of its name-value pairs; \<^verbatim>\<open>searchParams.get\<close> is the
  first value of a name, \<open>None\<close> (\<^verbatim>\<open>null\<close>) when the name is absent. The test
  \<^verbatim>\<open>creator ? { creator } : {}\<close> takes the filter for a string that is not empty.
\<close>

definition GET_dashboard :: "env \<Rightarrow> (string \<times> string) list \<Rightarrow> world \<Rightarrow> response \<times> world" where
  "GET_dashboard e searchParams w =
     (let creatorParam = map_of searchParams ''creator''
      in if creatorParam = Some [] then (\<lparr>status = 400, body = errorBody ''Creator is required''\<rparr>, w)
         else
           (case connectToDB e w of
              (Inl err, w1) \<Rightarrow> GET_dashboard_catch err w1
            | (Inr u, w1) \<Rightarrow>
                (let query = (case creatorParam of
                                None \<Rightarrow> None
                              | Some c \<Rightarrow> if c \<noteq> [] then Some c else None)
                 in case Product_find e query w1 of
                      (Inl err, w2) \<Rightarrow> GET_dashboard_catch err w2
                    | (Inr products, w2) \<Rightarrow>
                        (\<lparr>status = 200, body = VArr (map VDoc products)\<rparr>, w2))))"

subsection \<open>Handlers of \<^verbatim>\<open>/api/products/[id]\<close>\<close>

definition GET_product_catch :: "exn \<Rightarrow> world \<Rightarrow> response \<times> world" where
  "GET_product_catch err w =
     (\<lparr>status = 500, body = errorBody ''Failed to fetch product''\<rparr>, logTo [] (Some err) w)"

definition GET_product :: "env \<Rightarrow> string \<Rightarrow> world \<Rightarrow> response \<times> world" where
  "GET_product e ident w =
     (case connectToDB e w of
        (Inl err, w1) \<Rightarrow> GET_product_catch err w1
      | (Inr u, w1) \<Rightarrow>
          if \<not> isValid ident then (\<lparr>status = 400, body = errorBody ''Invalid ID format''\<rparr>, w1)
          else
            (case Product_findById e ident w1 of
               (Inl err, w2) \<Rightarrow> GET_product_catch err w2
             | (Inr None, w2) \<Rightarrow> (\<lparr>status = 404, body = VStr ''Product not found''\<rparr>, w2)
             | (Inr (Some product), w2) \<Rightarrow> (\<lparr>status = 200, body = VDoc product\<rparr>, w2)))"

definition PUT_product_catch :: "exn \<Rightarrow> world \<Rightarrow> response \<times> world" where
  "PUT_product_catch err w =
     (\<lparr>status = 500, body = errorBody ''Internal server error''\<rparr>,
      logTo ''Error updating product:'' (Some err) w)"

definition PUT_product :: "env \<Rightarrow> string \<Rightarrow> json option \<Rightarrow> world \<Rightarrow> response \<times> world" where
  "PUT_product e ident reqBody w =
     (if \<not> isValid ident then (\<lparr>status = 400, body = errorBody ''Invalid ID format''\<rparr>, w)
      else
        (case reqBody of
           None \<Rightarrow> PUT_product_catch SyntaxError (record_event ReqJson w)
         | Some b \<Rightarrow>
             (let w1 = record_event SafeParse (record_event ReqJson w)
              in case productSchema (urlParses e) b of
                   Inl issues \<Rightarrow>
                     (\<lparr>status = 400, body = VObj [(''error'', VArr (map VIssue issues))]\<rparr>, w1)
                 | Inr d \<Rightarrow>
                     (case connectToDB e w1 of
                        (Inl err, w2) \<Rightarrow> PUT_product_catch err w2
                      | (Inr u, w2) \<Rightarrow>
                          (case Product_findByIdAndUpdate e ident d w2 of
                             (Inl err, w3) \<Rightarrow> PUT_product_catch err w3
                           | (Inr None, w3) \<Rightarrow>
                               (\<lparr>status = 404, body = errorBody ''Product not found''\<rparr>, w3)
                           | (Inr (Some updatedProduct), w3) \<Rightarrow>
                               (\<lparr>status = 200,
                                 body = VObj [(''message'', VStr ''Product updated successfully''),
                                              (''product'', VModel)]\<rparr>, w3))))))"

definition DELETE_product_catch :: "exn \<Rightarrow> world \<Rightarrow> response \<times> world" where
  "DELETE_product_catch err w =
     (\<lparr>status = 500, body = errorBody ''Internal server error''\<rparr>,
      logTo ''Error deleting product:'' (Some err) w)"

definition DELETE_product :: "env \<Rightarrow> string \<Rightarrow> world \<Rightarrow> response \<times> world" where
  "DELETE_product e ident w =
     (if ident = [] then (\<lparr>status = 400, body = errorBody ''ID is required''\<rparr>, w)
      else
        (case connectToDB e w of
           (Inl err, w1) \<Rightarrow> DELETE_product_catch err w1
         | (Inr u, w1) \<Rightarrow>
             if \<not> isValid ident then (\<lparr>status = 400, body = errorBody ''Invalid ID format''\<rparr>, w1)
             else
               (case Product_findByIdAndDelete e ident w1 of
                  (Inl err, w2) \<Rightarrow> DELETE_product_catch err w2
                | (Inr None, w2) \<Rightarrow>
                    (\<lparr>status = 404, body = errorBody ''Product not found''\<rparr>, w2)
                | (Inr (Some deletedProduct), w2) \<Rightarrow>
                    (\<lparr>status = 200,
                      body = VObj [(''message'', VStr ''Product deleted successfully''),
                                   (''deletedProduct'', VDoc deletedProduct)]\<rparr>, w2))))"

subsection \<open>Writes, and what a request adds to the trace\<close>

text \<open>The data a call writes to the store: a create or an update.\<close>

fun writtenData :: "event \<Rightarrow> ProductData list" where
  "writtenData (Save d) = [d]"
| "writtenData (FindByIdAndUpdate ident d) = [d]"
| "writtenData ev = []"

definition written :: "event list \<Rightarrow> ProductData list" where
  "written evs = concat (map writtenData evs)"

text \<open>The calls made between the world \<open>w\<close> before a request and \<open>w'\<close> after it.\<close>

definition newEvents :: "world \<Rightarrow> world \<Rightarrow> event list" where
  "newEvents w w' = drop (length (trace w)) (trace w')"

definition allValid :: "(string \<Rightarrow> bool) \<Rightarrow> doc list \<Rightarrow> bool" where
  "allValid isURL ds = list_all (\<lambda>x. validData isURL (docData x)) ds"

text \<open>
  The store answers a request: the connection is established or the dial succeeds, and
  the store operation does not fail.
\<close>

definition reachable :: "env \<Rightarrow> world \<Rightarrow> bool" where
  "reachable e w = ((ready w \<or> dial e = None) \<and> storeFault e = None)"

subsection \<open>Sample data\<close>

text \<open>
  Concrete requests, documents and surroundings for the closed instances below: a store
  of two products in a process that has not connected yet (\<open>shop\<close>) or has (\<open>live\<close>);
  surroundings where everything works (\<open>up\<close>), where the dial is refused (\<open>down\<close>)
  and where the store rejects the operation (\<open>faulty\<close>).
\<close>

definition apple :: ProductData where
  "apple = \<lparr>title = ''iphone 20'', description = ''black iphone 16'', category = ''electronics'',
            imageUrl = ''https://example.com/i.png'', price = 2000, creator = ''apple''\<rparr>"

definition shirt :: ProductData where
  "shirt = \<lparr>title = ''shirt'', description = ''a shirt'', category = ''men'',
            imageUrl = ''https://example.com/s.png'', price = 20, creator = ''acme''\<rparr>"

definition appleBody :: json where
  "appleBody =
     JObj [(''title'', JStr ''iphone 20''), (''description'', JStr ''black iphone 16''),
           (''category'', JStr ''electronics''), (''imageUrl'', JStr ''https://example.com/i.png''),
           (''price'', JNum 2000), (''creator'', JStr ''apple'')]"

definition emptyUrlBody :: json where
  "emptyUrlBody =
     JObj [(''title'', JStr ''iphone 20''), (''description'', JStr ''black iphone 16''),
           (''category'', JStr ''electronics''), (''imageUrl'', JStr []),
           (''price'', JNum 2000), (''creator'', JStr ''apple'')]"

definition shop :: world where
  "shop =
     \<lparr>ready = False,
      docs = [\<lparr>oid = ''6727cfbd0062ef926c94bc1d'', docData = apple, createdAt = 1, updatedAt = 1\<rparr>,
              \<lparr>oid = ''6727cfbd0062ef926c94bc1e'', docData = shirt, createdAt = 2, updatedAt = 2\<rparr>],
      trace = [], console = []\<rparr>"

definition live :: world where
  "live = shop\<lparr>ready := True, trace := [Dial True]\<rparr>"

definition up :: env where
  "up = \<lparr>urlParses = (\<lambda>u. take 8 u = ''https://''), dial = None, storeFault = None,
         freshId = ''6727cfbd0062ef926c94bc1f'', clock = 3\<rparr>"

definition unauthorized :: DriverError where
  "unauthorized =
     \<lparr>errName = ''MongoServerError'',
      errMessage = ''not authorized on shop to execute command'',
      errProps = [(''code'', JNum 13), (''codeName'', JStr ''Unauthorized'')]\<rparr>"

definition refused :: DriverError where
  "refused =
     \<lparr>errName = ''MongooseServerSelectionError'',
      errMessage = ''connect ECONNREFUSED 10.0.0.5:27017'',
      errProps = []\<rparr>"

definition down :: env where
  "down = up\<lparr>dial := Some refused\<rparr>"

definition faulty :: env where
  "faulty = up\<lparr>storeFault := Some unauthorized\<rparr>"

section \<open>Properties\<close>

subsection \<open>Schema validator\<close>

lemma path_invalidType [simp]: "path (invalidType p e v) = p"
  by (simp add: invalidType_def)

lemma zString_min_fields:
  "map fieldOf (zString isURL [Min 1 msg] [k] v) = (if nonEmptyString v then [] else [Some k])"
  by (cases "(isURL, [Min 1 msg], [k], v)" rule: zString.cases) auto

lemma zString_url_fields:
  "map fieldOf (zString isURL [Url, Min 1 msg] [k] v) =
     (if nonEmptyUrl isURL v then []
      else replicate (if v = Some (JStr []) \<and> \<not> isURL [] then 2 else 1) (Some k))"
  by (cases "(isURL, [Url, Min 1 msg], [k], v)" rule: zString.cases) (auto simp: numeral_2_eq_2)

lemma zEnum_fields:
  "map fieldOf (zEnum options [k] v) = (if oneOf options v then [] else [Some k])"
  by (cases "(options, [k], v)" rule: zEnum.cases) auto

lemma zNumberMin_fields:
  "map fieldOf (zNumberMin n msg [k] v) = (if numberAtLeast n v then [] else [Some k])"
  by (cases "(n, msg, [k], v)" rule: zNumberMin.cases) auto

lemma fieldOk_JObj:
  "fieldOk isURL (JObj kvs) ''title'' = nonEmptyString (map_of kvs ''title'')"
  "fieldOk isURL (JObj kvs) ''description'' = nonEmptyString (map_of kvs ''description'')"
  "fieldOk isURL (JObj kvs) ''category'' = oneOf categories (map_of kvs ''category'')"
  "fieldOk isURL (JObj kvs) ''imageUrl'' = nonEmptyUrl isURL (map_of kvs ''imageUrl'')"
  "fieldOk isURL (JObj kvs) ''price'' = numberAtLeast 1 (map_of kvs ''price'')"
  "fieldOk isURL (JObj kvs) ''creator'' = nonEmptyString (map_of kvs ''creator'')"
  by (simp_all add: fieldOk_def property_def)

lemma filter_not_Cons:
  "filter (\<lambda>k. \<not> Q k) (k # ks) = (if Q k then [] else [k]) @ filter (\<lambda>k. \<not> Q k) ks"
  by simp

lemma violating_JObj:
  "violating isURL (JObj kvs) =
     (if nonEmptyString (map_of kvs ''title'') then [] else [''title''])
   @ (if nonEmptyString (map_of kvs ''description'') then [] else [''description''])
   @ (if oneOf categories (map_of kvs ''category'') then [] else [''category''])
   @ (if nonEmptyUrl isURL (map_of kvs ''imageUrl'') then [] else [''imageUrl''])
   @ (if numberAtLeast 1 (map_of kvs ''price'') then [] else [''price''])
   @ (if nonEmptyString (map_of kvs ''creator'') then [] else [''creator''])"
  unfolding violating_def schemaFields_def filter_not_Cons fieldOk_JObj
  by (simp split del: if_split)

lemma concat_map_if:
  "concat (map f (if c then [] else [k])) = (if c then [] else f k)"
  by simp

lemma errorsFor_JObj:
  "errorsFor isURL (JObj kvs) ''title'' = 1"
  "errorsFor isURL (JObj kvs) ''description'' = 1"
  "errorsFor isURL (JObj kvs) ''category'' = 1"
  "errorsFor isURL (JObj kvs) ''imageUrl'' =
     (if map_of kvs ''imageUrl'' = Some (JStr []) \<and> \<not> isURL [] then 2 else 1)"
  "errorsFor isURL (JObj kvs) ''price'' = 1"
  "errorsFor isURL (JObj kvs) ''creator'' = 1"
  by (simp_all add: errorsFor_def property_def)

lemma shapeIssues_fields:
  "map fieldOf (shapeIssues isURL kvs) =
     concat (map (\<lambda>k. replicate (errorsFor isURL (JObj kvs) k) (Some k))
                 (violating isURL (JObj kvs)))"
  unfolding shapeIssues_def map_append zString_min_fields zString_url_fields zEnum_fields
    zNumberMin_fields violating_JObj concat_append concat_map_if errorsFor_JObj
  by (simp split del: if_split cong: if_cong)

lemma violating_Nil_iff:
  "violating isURL (JObj kvs) = [] \<longleftrightarrow>
     nonEmptyString (map_of kvs ''title'') \<and> nonEmptyString (map_of kvs ''description'')
     \<and> oneOf categories (map_of kvs ''category'') \<and> nonEmptyUrl isURL (map_of kvs ''imageUrl'')
     \<and> numberAtLeast 1 (map_of kvs ''price'') \<and> nonEmptyString (map_of kvs ''creator'')"
  unfolding violating_JObj by simp

lemma shapeIssues_Nil: "shapeIssues isURL kvs = [] \<longleftrightarrow> violating isURL (JObj kvs) = []"
proof -
  have "shapeIssues isURL kvs = [] \<longleftrightarrow> map fieldOf (shapeIssues isURL kvs) = []"
    by simp
  also have "\<dots> \<longleftrightarrow> violating isURL (JObj kvs) = []"
    unfolding shapeIssues_def map_append zString_min_fields zString_url_fields zEnum_fields
      zNumberMin_fields violating_Nil_iff
    by simp
  finally show ?thesis .
qed

lemma violating_non_object:
  "violating isURL JNull = schemaFields"
  "violating isURL (JBool b) = schemaFields"
  "violating isURL (JNum n) = schemaFields"
  "violating isURL (JStr s) = schemaFields"
  "violating isURL (JArr xs) = schemaFields"
  by (simp_all add: violating_def schemaFields_def fieldOk_def property_def)

text \<open>
  C1, as the code has it. \<^verbatim>\<open>productSchema\<close> accepts a payload exactly when no field
  breaks its rule: title, description and creator are non-empty strings, category is one
  of the four values, imageUrl is a non-empty string that parses as a URL, price is a
  number that is at least 1. On rejection of an object the errors name exactly the
  violating fields, in the schema's order, all of them collected: one error for each
  violating field, but two for an imageUrl that is the empty string when the empty string
  does not parse as a URL. A payload that is not an object is rejected with a single
  error that names no field.
\<close>

theorem productSchema_accepts_and_errors:
  "((\<exists>d. productSchema isURL payload = Inr d) \<longleftrightarrow> violating isURL payload = [])
   \<and> map fieldOf (issuesOf (productSchema isURL payload)) =
       (case payload of
          JObj kvs \<Rightarrow>
            concat (map (\<lambda>k. replicate (errorsFor isURL payload k) (Some k))
                        (violating isURL payload))
        | _ \<Rightarrow> [None])"
proof (cases payload)
  case (JObj kvs)
  show ?thesis
  proof (cases "shapeIssues isURL kvs = []")
    case True
    then show ?thesis
      using JObj shapeIssues_Nil[of isURL kvs] by simp
  next
    case False
    then show ?thesis
      using JObj shapeIssues_Nil[of isURL kvs] shapeIssues_fields[of isURL kvs] by simp
  qed
qed (simp_all add: violating_non_object, simp_all add: schemaFields_def)

text \<open>
  C1, as stated, fails at two inputs. The payload \<^verbatim>\<open>null\<close> breaks the rule of all six
  fields, and the validator returns one error, which names no field (the URL parser is
  not consulted). The sample product with the empty string as its \<^verbatim>\<open>imageUrl\<close>, under
  a URL parser that rejects the empty string, breaks the rule of that one field only,
  and the validator returns two errors for it: one of the \<^verbatim>\<open>url\<close> check and one of the
  \<^verbatim>\<open>min\<close> check.
\<close>

theorem productSchema_one_per_field_counterexample:
  "length (issuesOf (productSchema undefined JNull)) = 1
   \<and> map fieldOf (issuesOf (productSchema undefined JNull)) = [None]
   \<and> length (violating undefined JNull) = 6
   \<and> \<not> urlParses up []
   \<and> violating (urlParses up) emptyUrlBody = [''imageUrl'']
   \<and> map fieldOf (issuesOf (productSchema (urlParses up) emptyUrlBody)) =
       [Some ''imageUrl'', Some ''imageUrl'']
   \<and> map message (issuesOf (productSchema (urlParses up) emptyUrlBody)) =
       [''Invalid url'', ''Image URL is required'']"
proof -
  have null: "length (issuesOf (productSchema undefined JNull)) = 1
      \<and> map fieldOf (issuesOf (productSchema undefined JNull)) = [None]
      \<and> length (violating undefined JNull) = 6"
    by (simp add: violating_non_object) (simp add: schemaFields_def)
  have parser: "\<not> urlParses up []"
    by (simp add: up_def)
  have v: "violating (urlParses up) emptyUrlBody = [''imageUrl'']"
    unfolding emptyUrlBody_def violating_JObj by (simp add: categories_def)
  have issues: "shapeIssues (urlParses up) 
      [(''title'', JStr ''iphone 20''), (''description'', JStr ''black iphone 16''),
       (''category'', JStr ''electronics''), (''imageUrl'', JStr []),
       (''price'', JNum 2000), (''creator'', JStr ''apple'')] =
      [\<lparr>code = invalid_string, path = [''imageUrl''], message = ''Invalid url''\<rparr>,
       \<lparr>code = too_small, path = [''imageUrl''], message = ''Image URL is required''\<rparr>]"
    by (simp add: shapeIssues_def categories_def up_def)
  have e: "issuesOf (productSchema (urlParses up) emptyUrlBody) =
      [\<lparr>code = invalid_string, path = [''imageUrl''], message = ''Invalid url''\<rparr>,
       \<lparr>code = too_small, path = [''imageUrl''], message = ''Image URL is required''\<rparr>]"
    unfolding emptyUrlBody_def productSchema.simps issues by simp
  show ?thesis
    using null parser v unfolding e by simp
qed

subsection \<open>Frame lemmas of the world\<close>

lemma trace_logTo [simp]: "trace (logTo l x w) = trace w"
  and docs_logTo [simp]: "docs (logTo l x w) = docs w"
  and ready_logTo [simp]: "ready (logTo l x w) = ready w"
  by (simp_all add: logTo_def)

lemma trace_record_event [simp]: "trace (record_event ev w) = trace w @ [ev]"
  and docs_record_event [simp]: "docs (record_event ev w) = docs w"
  and ready_record_event [simp]: "ready (record_event ev w) = ready w"
  by (simp_all add: record_event_def)

lemma written_simps [simp]:
  "written [] = []" "written (ev # evs) = writtenData ev @ written evs"
  "written (xs @ ys) = written xs @ written ys"
  by (simp_all add: written_def)

lemma connectToDB_ok:
  "ready w \<or> dial e = None \<Longrightarrow> \<exists>w1. connectToDB e w = (Inr (), w1) \<and> docs w1 = docs w"
  by (auto simp: connectToDB_def mongooseConnect_def)

lemma connectToDB_fails:
  "\<not> ready w \<Longrightarrow> dial e = Some err \<Longrightarrow>
   \<exists>w1. connectToDB e w = (Inl (Error ''Failed to connect to mongoDb''), w1)"
  by (auto simp: connectToDB_def mongooseConnect_def)

lemma connectToDB_shape:
  "\<exists>r w1 dl. connectToDB e w = (r, w1) \<and> docs w1 = docs w \<and> trace w1 = trace w @ dl
     \<and> written dl = []"
  by (auto simp: connectToDB_def mongooseConnect_def split: option.splits)

subsection \<open>Filter by creator\<close>

text \<open>
  C2. On the dashboard endpoint: a \<^verbatim>\<open>creator\<close> parameter that is present and empty
  gives 400 and leaves the world as it was (no connection, no fetch); with the parameter
  absent the response is 200 with every product; with a non-empty value \<open>c\<close> it is 200
  with exactly the products whose creator is \<open>c\<close>; and in both of the last two cases a
  failure of the connection or of the store gives 500 instead.
\<close>

theorem dashboard_by_creator:
  "(map_of q ''creator'' = Some [] \<longrightarrow>
      GET_dashboard e q w = (\<lparr>status = 400, body = errorBody ''Creator is required''\<rparr>, w))
   \<and> (map_of q ''creator'' = None \<and> reachable e w \<longrightarrow>
      fst (GET_dashboard e q w) = \<lparr>status = 200, body = VArr (map VDoc (docs w))\<rparr>)
   \<and> (map_of q ''creator'' = Some c \<and> c \<noteq> [] \<and> reachable e w \<longrightarrow>
      fst (GET_dashboard e q w) =
        \<lparr>status = 200,
         body = VArr (map VDoc (filter (\<lambda>d. creator (docData d) = c) (docs w)))\<rparr>)
   \<and> (map_of q ''creator'' \<noteq> Some [] \<and> \<not> reachable e w \<longrightarrow>
      fst (GET_dashboard e q w) =
        \<lparr>status = 500, body = errorBody ''Failed to fetch products''\<rparr>)"
proof (intro conjI impI)
  assume "map_of q ''creator'' = Some []"
  then show "GET_dashboard e q w =
      (\<lparr>status = 400, body = errorBody ''Creator is required''\<rparr>, w)"
    by (simp add: GET_dashboard_def)
next
  assume a: "map_of q ''creator'' = None \<and> reachable e w"
  then obtain w1 where "connectToDB e w = (Inr (), w1)" "docs w1 = docs w"
    using connectToDB_ok[of w e] by (auto simp: reachable_def)
  with a show "fst (GET_dashboard e q w) = \<lparr>status = 200, body = VArr (map VDoc (docs w))\<rparr>"
    by (simp add: GET_dashboard_def Product_find_def matching_def reachable_def)
next
  assume a: "map_of q ''creator'' = Some c \<and> c \<noteq> [] \<and> reachable e w"
  then obtain w1 where "connectToDB e w = (Inr (), w1)" "docs w1 = docs w"
    using connectToDB_ok[of w e] by (auto simp: reachable_def)
  with a show "fst (GET_dashboard e q w) =
      \<lparr>status = 200,
       body = VArr (map VDoc (filter (\<lambda>d. creator (docData d) = c) (docs w)))\<rparr>"
    by (simp add: GET_dashboard_def Product_find_def matching_def reachable_def)
next
  assume a: "map_of q ''creator'' \<noteq> Some [] \<and> \<not> reachable e w"
  show "fst (GET_dashboard e q w) =
      \<lparr>status = 500, body = errorBody ''Failed to fetch products''\<rparr>"
  proof (cases "ready w \<or> dial e = None")
    case True
    then obtain w1 where "connectToDB e w = (Inr (), w1)"
      using connectToDB_ok[of w e] by auto
    moreover from True a obtain err where "storeFault e = Some err"
      by (auto simp: reachable_def)
    ultimately show ?thesis using a
      by (simp add: GET_dashboard_def Product_find_def GET_dashboard_catch_def)
  next
    case False
    then obtain err where "\<not> ready w" "dial e = Some err" by auto
    then obtain w1 where
      "connectToDB e w = (Inl (Error ''Failed to connect to mongoDb''), w1)"
      using connectToDB_fails by blast
    then show ?thesis using a
      by (simp add: GET_dashboard_def GET_dashboard_catch_def)
  qed
qed

text \<open>
  C2 at concrete requests on the sample store: \<^verbatim>\<open>?creator=\<close>, no parameter,
  \<^verbatim>\<open>?creator=apple\<close>, and \<^verbatim>\<open>?creator=apple\<close> with the database unreachable.
\<close>

theorem dashboard_by_creator_witness:
  "GET_dashboard up [(''creator'', [])] shop =
     (\<lparr>status = 400, body = errorBody ''Creator is required''\<rparr>, shop)
   \<and> fst (GET_dashboard up [] shop) = \<lparr>status = 200, body = VArr (map VDoc (docs shop))\<rparr>
   \<and> fst (GET_dashboard up [(''creator'', ''apple'')] shop) =
        \<lparr>status = 200,
         body = VArr [VDoc \<lparr>oid = ''6727cfbd0062ef926c94bc1d'', docData = apple,
                            createdAt = 1, updatedAt = 1\<rparr>]\<rparr>
   \<and> fst (GET_dashboard down [(''creator'', ''apple'')] shop) =
        \<lparr>status = 500, body = errorBody ''Failed to fetch products''\<rparr>"
  using dashboard_by_creator[of "[(''creator'', [])]" up shop "[]"]
    dashboard_by_creator[of "[]" up shop "''apple''"]
    dashboard_by_creator[of "[(''creator'', ''apple'')]" up shop "''apple''"]
    dashboard_by_creator[of "[(''creator'', ''apple'')]" down shop "''apple''"]
  by (simp add: reachable_def up_def down_def shop_def apple_def shirt_def refused_def)

subsection \<open>Identifier check and database round-trips\<close>

text \<open>
  C3 at a failing input. The identifier \<^verbatim>\<open>abc\<close> is malformed. In a process that has
  not connected yet, GET and DELETE dial the database before they look at the
  identifier: with the database unreachable the answer is 500, not 400, and with the
  database reachable the 400 comes after a connection was established.
\<close>

theorem GET_DELETE_connect_before_id_check:
  "\<not> isValid ''abc''
   \<and> status (fst (GET_product down ''abc'' shop)) = 500
   \<and> trace (snd (GET_product down ''abc'' shop)) = [Dial False]
   \<and> status (fst (GET_product up ''abc'' shop)) = 400
   \<and> trace (snd (GET_product up ''abc'' shop)) = [Dial True]
   \<and> status (fst (DELETE_product down ''abc'' shop)) = 500
   \<and> trace (snd (DELETE_product down ''abc'' shop)) = [Dial False]
   \<and> status (fst (DELETE_product up ''abc'' shop)) = 400
   \<and> trace (snd (DELETE_product up ''abc'' shop)) = [Dial True]"
  by (simp add: GET_product_def DELETE_product_def GET_product_catch_def
      DELETE_product_catch_def connectToDB_def mongooseConnect_def isValid_def up_def down_def
      shop_def)

text \<open>
  C4. A PUT whose identifier is malformed answers 400 and leaves the world as it was:
  the body is neither read nor validated, nothing is logged, no call is made. Two such
  requests that differ only in their bodies get the same answer.
\<close>

theorem PUT_malformed_id_ignores_body:
  assumes "\<not> isValid ident"
  shows "PUT_product e ident b w =
           (\<lparr>status = 400, body = errorBody ''Invalid ID format''\<rparr>, w)
         \<and> PUT_product e ident b w = PUT_product e ident b' w"
  using assms by (simp add: PUT_product_def)

text \<open>C4 at the identifier \<^verbatim>\<open>abc\<close>, with a body that is not JSON and with one that is.\<close>

theorem PUT_malformed_id_ignores_body_witness:
  "\<not> isValid ''abc''
   \<and> PUT_product up ''abc'' None shop =
       (\<lparr>status = 400, body = errorBody ''Invalid ID format''\<rparr>, shop)
   \<and> PUT_product up ''abc'' None shop =
       PUT_product up ''abc'' (Some (JObj [(''title'', JStr ''x'')])) shop"
  using PUT_malformed_id_ignores_body[of "''abc''" up None shop
      "Some (JObj [(''title'', JStr ''x'')])"]
  by (simp add: isValid_def PUT_product_def)

subsection \<open>Validation before persistence\<close>

lemma strOf_nonEmpty: "nonEmptyString v \<Longrightarrow> strOf v \<noteq> []"
  by (cases v rule: nonEmptyString.cases) simp_all

lemma strOf_oneOf: "oneOf os v \<Longrightarrow> strOf v \<in> set os"
  by (cases "(os, v)" rule: oneOf.cases) simp_all

lemma strOf_url:
  "nonEmptyUrl isURL v \<Longrightarrow> strOf v \<noteq> []" "nonEmptyUrl isURL v \<Longrightarrow> isURL (strOf v)"
  by (cases "(isURL, v)" rule: nonEmptyUrl.cases; simp)+

lemma numOf_atLeast: "numberAtLeast n v \<Longrightarrow> n \<le> numOf v"
  by (cases "(n, v)" rule: numberAtLeast.cases) simp_all

lemma productSchema_Inr_valid:
  assumes "productSchema isURL j = Inr d"
  shows "validData isURL d"
proof (cases j)
  case (JObj kvs)
  with assms have ok: "shapeIssues isURL kvs = []"
    and d: "d = \<lparr>title = strOf (map_of kvs ''title''),
                description = strOf (map_of kvs ''description''),
                category = strOf (map_of kvs ''category''),
                imageUrl = strOf (map_of kvs ''imageUrl''),
                price = numOf (map_of kvs ''price''),
                creator = strOf (map_of kvs ''creator'')\<rparr>"
    by (auto split: if_splits)
  from ok have "violating isURL (JObj kvs) = []"
    by (simp add: shapeIssues_Nil)
  then show ?thesis
    unfolding violating_Nil_iff d validData_def
    using strOf_url(1)[of isURL "map_of kvs ''imageUrl''"]
    by (simp add: strOf_nonEmpty strOf_oneOf strOf_url(2) numOf_atLeast)
qed (use assms in simp_all)

lemma POST_catch_frame [simp]:
  "trace (snd (POST_catch err w)) = trace w" "docs (snd (POST_catch err w)) = docs w"
  by (cases "(err, w)" rule: POST_catch.cases; simp)+

lemma PUT_product_catch_frame [simp]:
  "trace (snd (PUT_product_catch err w)) = trace w"
  "docs (snd (PUT_product_catch err w)) = docs w"
  by (simp_all add: PUT_product_catch_def)

lemma record_rebuild [simp]:
  "\<lparr>title = title d, description = description d, category = category d,
    imageUrl = imageUrl d, price = price d, creator = creator d\<rparr> = (d :: ProductData)"
  by simp

lemma allValid_append [simp]:
  "allValid isURL (xs @ ys) \<longleftrightarrow> allValid isURL xs \<and> allValid isURL ys"
  by (simp add: allValid_def)

lemma allValid_updateFirst:
  "allValid isURL ds \<Longrightarrow> validData isURL d \<Longrightarrow>
   allValid isURL (updateFirst Q (\<lambda>x. x\<lparr>docData := d, updatedAt := t\<rparr>) ds)"
  by (induction ds) (simp_all add: allValid_def)

lemma POST_products_writes:
  "(d \<in> set (written (newEvents w (snd (POST_products e b w)))) \<longrightarrow>
      (\<exists>j. b = Some j \<and> productSchema (urlParses e) j = Inr d) \<and> validData (urlParses e) d
      \<and> take 2 (newEvents w (snd (POST_products e b w))) = [ReqJson, SafeParse])
   \<and> (allValid (urlParses e) (docs w) \<longrightarrow>
        allValid (urlParses e) (docs (snd (POST_products e b w))))"
proof (cases b)
  case None
  then show ?thesis by (simp add: POST_products_def newEvents_def)
next
  case (Some j)
  show ?thesis
  proof (cases "productSchema (urlParses e) j")
    case (Inl issues)
    with Some show ?thesis by (simp add: POST_products_def newEvents_def)
  next
    case (Inr d0)
    then have v: "validData (urlParses e) d0" by (rule productSchema_Inr_valid)
    obtain r w2 dl where
      c: "connectToDB e (record_event SafeParse (record_event ReqJson w)) = (r, w2)"
      "docs w2 = docs w" "trace w2 = trace w @ [ReqJson, SafeParse] @ dl" "written dl = []"
      using connectToDB_shape[of e "record_event SafeParse (record_event ReqJson w)"] by auto
    show ?thesis
    proof (cases r)
      case (Inl err)
      with Some Inr c show ?thesis by (simp add: POST_products_def newEvents_def)
    next
      case (Inr u)
      with Some \<open>productSchema (urlParses e) j = Inr d0\<close> c v show ?thesis
        by (auto simp: POST_products_def newEvents_def Product_save_def Let_def allValid_def
            split: option.splits)
    qed
  qed
qed

lemma PUT_product_writes:
  "(d \<in> set (written (newEvents w (snd (PUT_product e ident b w)))) \<longrightarrow>
      (\<exists>j. b = Some j \<and> productSchema (urlParses e) j = Inr d) \<and> validData (urlParses e) d
      \<and> take 2 (newEvents w (snd (PUT_product e ident b w))) = [ReqJson, SafeParse])
   \<and> (allValid (urlParses e) (docs w) \<longrightarrow>
        allValid (urlParses e) (docs (snd (PUT_product e ident b w))))"
proof (cases "isValid ident")
  case False
  then show ?thesis by (simp add: PUT_product_def newEvents_def)
next
  case True
  show ?thesis
  proof (cases b)
    case None
    with True show ?thesis by (simp add: PUT_product_def newEvents_def)
  next
    case (Some j)
    show ?thesis
    proof (cases "productSchema (urlParses e) j")
      case (Inl issues)
      with True Some show ?thesis by (simp add: PUT_product_def newEvents_def)
    next
      case (Inr d0)
      then have v: "validData (urlParses e) d0" by (rule productSchema_Inr_valid)
      obtain r w2 dl where
        c: "connectToDB e (record_event SafeParse (record_event ReqJson w)) = (r, w2)"
        "docs w2 = docs w" "trace w2 = trace w @ [ReqJson, SafeParse] @ dl" "written dl = []"
        using connectToDB_shape[of e "record_event SafeParse (record_event ReqJson w)"] by auto
      show ?thesis
      proof (cases r)
        case (Inl err)
        with True Some Inr c show ?thesis by (simp add: PUT_product_def newEvents_def)
      next
        case (Inr u)
        with True Some \<open>productSchema (urlParses e) j = Inr d0\<close> c v show ?thesis
          by (auto simp: PUT_product_def newEvents_def Product_findByIdAndUpdate_def Let_def
              allValid_updateFirst split: option.splits)
      qed
    qed
  qed
qed

text \<open>
  C5. Whatever a POST or a PUT writes to the store (a create or an update among the
  calls the request adds to the trace) is the data the schema returned for the request's
  body, it satisfies the validator's rules, and the request began by reading the body
  and running the schema. Hence a store whose products all satisfy the rules still does
  after the request.
\<close>

theorem writes_are_validated:
  "(d \<in> set (written (newEvents w (snd (POST_products e b w)))) \<longrightarrow>
      (\<exists>j. b = Some j \<and> productSchema (urlParses e) j = Inr d) \<and> validData (urlParses e) d
      \<and> take 2 (newEvents w (snd (POST_products e b w))) = [ReqJson, SafeParse])
   \<and> (allValid (urlParses e) (docs w) \<longrightarrow>
        allValid (urlParses e) (docs (snd (POST_products e b w))))
   \<and> (d \<in> set (written (newEvents w (snd (PUT_product e ident b w)))) \<longrightarrow>
      (\<exists>j. b = Some j \<and> productSchema (urlParses e) j = Inr d) \<and> validData (urlParses e) d
      \<and> take 2 (newEvents w (snd (PUT_product e ident b w))) = [ReqJson, SafeParse])
   \<and> (allValid (urlParses e) (docs w) \<longrightarrow>
        allValid (urlParses e) (docs (snd (PUT_product e ident b w))))"
  using POST_products_writes[of d w e b] PUT_product_writes[of d w e ident b] by simp

lemma productSchema_appleBody':
  "productSchema (\<lambda>u. take 8 u = ''https://'') appleBody = Inr apple"
  by (simp add: appleBody_def apple_def shapeIssues_def categories_def)

lemma productSchema_appleBody: "productSchema (urlParses up) appleBody = Inr apple"
  by (simp add: up_def productSchema_appleBody')

lemma POST_apple:
  "snd (POST_products up (Some appleBody) shop) =
     shop\<lparr>ready := True,
          docs := docs shop @ [\<lparr>oid = ''6727cfbd0062ef926c94bc1f'', docData = apple,
                                createdAt = 3, updatedAt = 3\<rparr>],
          trace := [ReqJson, SafeParse, Dial True, Save apple],
          console := [(''connected to MongoDB'', None)]\<rparr>"
  by (simp add: POST_products_def productSchema_appleBody' connectToDB_def mongooseConnect_def
      Product_save_def modelValid_def logTo_def record_event_def Let_def
      shop_def up_def apple_def categories_def)

lemma PUT_apple:
  "snd (PUT_product up ''6727cfbd0062ef926c94bc1e'' (Some appleBody) shop) =
     shop\<lparr>ready := True,
          docs := [\<lparr>oid = ''6727cfbd0062ef926c94bc1d'', docData = apple,
                    createdAt = 1, updatedAt = 1\<rparr>,
                   \<lparr>oid = ''6727cfbd0062ef926c94bc1e'', docData = apple,
                    createdAt = 2, updatedAt = 3\<rparr>],
          trace := [ReqJson, SafeParse, Dial True,
                    FindByIdAndUpdate ''6727cfbd0062ef926c94bc1e'' apple],
          console := [(''connected to MongoDB'', None)]\<rparr>"
  by (simp add: PUT_product_def productSchema_appleBody' connectToDB_def mongooseConnect_def
      Product_findByIdAndUpdate_def isValid_def isHexDigit_def logTo_def record_event_def Let_def
      shop_def up_def)

lemma allValid_shop: "allValid (urlParses up) (docs shop)"
  by (simp add: allValid_def validData_def shop_def up_def apple_def shirt_def categories_def)

text \<open>
  C5 at the specification's sample product: posted, and put onto the second document
  of the sample store, it is written, it is what the schema returned, and the store's
  products satisfy the rules before and after.
\<close>

theorem writes_are_validated_witness:
  "apple \<in> set (written (newEvents shop (snd (POST_products up (Some appleBody) shop))))
   \<and> productSchema (urlParses up) appleBody = Inr apple
   \<and> validData (urlParses up) apple
   \<and> allValid (urlParses up) (docs shop)
   \<and> allValid (urlParses up) (docs (snd (POST_products up (Some appleBody) shop)))
   \<and> apple \<in> set (written (newEvents shop
         (snd (PUT_product up ''6727cfbd0062ef926c94bc1e'' (Some appleBody) shop))))
   \<and> allValid (urlParses up)
         (docs (snd (PUT_product up ''6727cfbd0062ef926c94bc1e'' (Some appleBody) shop)))"
proof -
  have 1: "apple \<in> set (written (newEvents shop (snd (POST_products up (Some appleBody) shop))))"
    unfolding POST_apple by (simp add: newEvents_def shop_def)
  have 2: "apple \<in> set (written (newEvents shop
      (snd (PUT_product up ''6727cfbd0062ef926c94bc1e'' (Some appleBody) shop))))"
    unfolding PUT_apple by (simp add: newEvents_def shop_def)
  show ?thesis
    using 1 2 allValid_shop productSchema_appleBody
      writes_are_validated[of apple shop up "Some appleBody" "''6727cfbd0062ef926c94bc1e''"]
    by simp
qed

subsection \<open>What a 500 response carries\<close>

lemma POST_catch_500:
  "status (fst (POST_catch err w)) = 500 \<Longrightarrow>
   body (fst (POST_catch err w)) = errorBody ''Failed to create product''"
  by (cases "(err, w)" rule: POST_catch.cases) simp_all

text \<open>
  Five of the six handlers answer a failure with a fixed message and nothing else.
\<close>

lemma other_handlers_500_generic:
  "status (fst (POST_products e b w)) = 500 \<Longrightarrow>
     body (fst (POST_products e b w)) = errorBody ''Failed to create product''"
  "status (fst (GET_dashboard e q w)) = 500 \<Longrightarrow>
     body (fst (GET_dashboard e q w)) = errorBody ''Failed to fetch products''"
  "status (fst (GET_product e ident w)) = 500 \<Longrightarrow>
     body (fst (GET_product e ident w)) = errorBody ''Failed to fetch product''"
  "status (fst (PUT_product e ident b w)) = 500 \<Longrightarrow>
     body (fst (PUT_product e ident b w)) = errorBody ''Internal server error''"
  "status (fst (DELETE_product e ident w)) = 500 \<Longrightarrow>
     body (fst (DELETE_product e ident w)) = errorBody ''Internal server error''"
proof -
  show "status (fst (POST_products e b w)) = 500 \<Longrightarrow>
     body (fst (POST_products e b w)) = errorBody ''Failed to create product''"
    by (auto simp: POST_products_def POST_catch_500 Let_def
        split: option.splits sum.splits prod.splits)
  show "status (fst (GET_dashboard e q w)) = 500 \<Longrightarrow>
     body (fst (GET_dashboard e q w)) = errorBody ''Failed to fetch products''"
    by (auto simp: GET_dashboard_def GET_dashboard_catch_def Let_def
        split: option.splits sum.splits prod.splits if_splits)
  show "status (fst (GET_product e ident w)) = 500 \<Longrightarrow>
     body (fst (GET_product e ident w)) = errorBody ''Failed to fetch product''"
    by (auto simp: GET_product_def GET_product_catch_def Let_def
        split: option.splits sum.splits prod.splits if_splits)
  show "status (fst (PUT_product e ident b w)) = 500 \<Longrightarrow>
     body (fst (PUT_product e ident b w)) = errorBody ''Internal server error''"
    by (auto simp: PUT_product_def PUT_product_catch_def Let_def
        split: option.splits sum.splits prod.splits if_splits)
  show "status (fst (DELETE_product e ident w)) = 500 \<Longrightarrow>
     body (fst (DELETE_product e ident w)) = errorBody ''Internal server error''"
    by (auto simp: DELETE_product_def DELETE_product_catch_def Let_def
        split: option.splits sum.splits prod.splits if_splits)
qed

text \<open>
  C6 at a failing input. When the store rejects the query of \<^verbatim>\<open>GET /api/products\<close>,
  the 500 response carries, beside the fixed message, the caught error itself under
  \<^verbatim>\<open>details\<close>: here the driver's error with its server code and code name.
\<close>

theorem GET_products_exposes_store_error:
  "fst (GET_products faulty shop) =
     \<lparr>status = 500,
      body = VObj [(''error'', VStr ''Failed to retrieve products''),
                   (''details'', VExn (Driver unauthorized))]\<rparr>"
  by (simp add: GET_products_def GET_products_catch_def Product_find_def
      connectToDB_def mongooseConnect_def up_def faulty_def shop_def)

subsection \<open>Connection manager\<close>

lemma connectToDB_step:
  "ready w \<Longrightarrow> connectToDB e w = (Inr (), logTo ''connected to MongoDB'' None w)"
  "\<not> ready w \<Longrightarrow> dial e = None \<Longrightarrow>
     ready (snd (connectToDB e w)) \<and> established (snd (connectToDB e w)) = established w + 1"
  "\<not> ready w \<Longrightarrow> dial e = Some err \<Longrightarrow>
     \<not> ready (snd (connectToDB e w)) \<and> established (snd (connectToDB e w)) = established w"
  by (simp_all add: connectToDB_def mongooseConnect_def established_def)

lemma established_logTo [simp]: "established (logTo l x w) = established w"
  and dialled_logTo [simp]: "dialled (logTo l x w) = dialled w"
  by (simp_all add: established_def dialled_def)

lemma connectAll_established:
  "established (connectAll es w) \<le> established w + (if ready w then 0 else 1)"
proof (induction es arbitrary: w)
  case Nil
  then show ?case by simp
next
  case (Cons e es)
  let ?w' = "snd (connectToDB e w)"
  have IH: "established (connectAll es ?w') \<le> established ?w' + (if ready ?w' then 0 else 1)"
    by (rule Cons.IH)
  show ?case
  proof (cases "ready w")
    case True
    then show ?thesis using IH by (simp add: connectToDB_step(1))
  next
    case False
    show ?thesis
    proof (cases "dial e")
      case None
      with False connectToDB_step(2)[of w e] IH show ?thesis by simp
    next
      case (Some err)
      with False connectToDB_step(3)[of w e err] IH show ?thesis by simp
    qed
  qed
qed

text \<open>
  C7. With the connection established, \<^verbatim>\<open>connectToDB\<close> returns at once: it succeeds,
  writes its log line and makes no dial. A sequence of calls, whatever the outcome of
  each dial, establishes at most one connection, and none when one was established
  before.
\<close>

theorem connectToDB_idempotent:
  "(ready w \<longrightarrow>
      connectToDB e w = (Inr (), logTo ''connected to MongoDB'' None w)
      \<and> trace (snd (connectToDB e w)) = trace w
      \<and> dialled (snd (connectToDB e w)) = dialled w)
   \<and> established (connectAll es w) \<le> established w + (if ready w then 0 else 1)"
  using connectAll_established[of es w] by (simp add: connectToDB_step(1))

text \<open>
  C7 on a connected process whose next dial would be refused, and on five calls from a
  process that has not connected, the first and third of them with the dial refused.
\<close>

theorem connectToDB_idempotent_witness:
  "ready live
   \<and> connectToDB down live = (Inr (), logTo ''connected to MongoDB'' None live)
   \<and> trace (snd (connectToDB down live)) = [Dial True]
   \<and> established (connectAll [down, up, down, up, up] shop) \<le> 1"
  using connectToDB_idempotent[of live down "[]"]
    connectToDB_idempotent[of shop up "[down, up, down, up, up]"]
  by (simp add: live_def shop_def established_def)

subsection \<open>Envelope of a validation failure\<close>

lemma zString_paths: "list_all (\<lambda>i. path i = [k]) (zString isURL checks [k] v)"
proof (cases "(isURL, checks, [k], v)" rule: zString.cases)
  case (1 isURL' checks' p s)
  have "list_all (\<lambda>i. path i = [k]) (checkString isURL [k] s c)" for c
    by (cases c) simp_all
  then have "list_all (\<lambda>i. path i = [k]) (concat (map (checkString isURL [k] s) checks))"
    by (induction checks) simp_all
  with 1 show ?thesis by simp
qed simp_all

lemma zEnum_zNumberMin_paths:
  "list_all (\<lambda>i. path i = [k]) (zEnum os [k] v)"
  "list_all (\<lambda>i. path i = [k]) (zNumberMin n msg [k] v)"
  by (cases "(os, [k], v)" rule: zEnum.cases; simp)
     (cases "(n, msg, [k], v)" rule: zNumberMin.cases; simp)

lemma list_all_weaken: "list_all P xs \<Longrightarrow> (\<And>x. P x \<Longrightarrow> Q x) \<Longrightarrow> list_all Q xs"
  by (induction xs) auto

lemma shapeIssues_fieldErrors:
  "list_all (\<lambda>i. isFieldError (fieldError i)) (shapeIssues isURL kvs)"
proof -
  have f: "path i = [k] \<Longrightarrow> isFieldError (fieldError i)" for i k
    by (simp add: fieldError_def)
  show ?thesis
    unfolding shapeIssues_def list_all_append
    by (intro conjI list_all_weaken[OF zString_paths]
        list_all_weaken[OF zEnum_zNumberMin_paths(1)]
        list_all_weaken[OF zEnum_zNumberMin_paths(2)]) (erule f)+
qed

text \<open>
  The POST handler answers an object that fails the schema with the envelope of field
  errors.
\<close>

lemma POST_object_validation_envelope:
  "productSchema (urlParses e) (JObj kvs) = Inl issues \<Longrightarrow>
   fst (POST_products e (Some (JObj kvs)) w) =
     \<lparr>status = 400, body = VObj [(''errors'', VArr (map fieldError issues))]\<rparr>
   \<and> isErrorEnvelope (VObj [(''errors'', VArr (map fieldError issues))])"
  using shapeIssues_fieldErrors[of "urlParses e" kvs]
  by (auto simp: POST_products_def Let_def list_all_iff split: if_splits)

text \<open>
  C8 at a failing input. A PUT with a well-formed identifier and the body \<^verbatim>\<open>{}\<close>
  fails the schema; the 400 response has the key \<^verbatim>\<open>error\<close> holding the array of the
  library's raw issues, which is neither an error string nor a list of field errors
  under \<^verbatim>\<open>errors\<close>.
\<close>

theorem PUT_validation_body_not_envelope:
  "status (fst (PUT_product up ''6727cfbd0062ef926c94bc1d'' (Some (JObj [])) shop)) = 400
   \<and> body (fst (PUT_product up ''6727cfbd0062ef926c94bc1d'' (Some (JObj [])) shop)) =
       VObj [(''error'', VArr (map VIssue (shapeIssues (urlParses up) [])))]
   \<and> \<not> isErrorEnvelope
         (body (fst (PUT_product up ''6727cfbd0062ef926c94bc1d'' (Some (JObj [])) shop)))"
  by (simp add: PUT_product_def isValid_def isHexDigit_def shapeIssues_def)

subsection \<open>Identifier validator\<close>

lemma hex_codes:
  "(48 \<le> n \<and> n \<le> 57) \<or> (97 \<le> n \<and> n \<le> 102) \<or> (65 \<le> n \<and> n \<le> 70) \<longleftrightarrow>
   n \<in> {48, 49, 50, 51, 52, 53, 54, 55, 56, 57, 97, 98, 99, 100, 101, 102,
        65, 66, 67, 68, 69, 70 :: nat}"
  by (simp only: insert_iff empty_iff) arith

lemma hex_chars:
  "(of_char :: char \<Rightarrow> nat) ` set ''0123456789abcdefABCDEF'' =
   {48, 49, 50, 51, 52, 53, 54, 55, 56, 57, 97, 98, 99, 100, 101, 102,
    65, 66, 67, 68, 69, 70}"
  by simp

lemma isHexDigit_iff: "isHexDigit c \<longleftrightarrow> c \<in> set ''0123456789abcdefABCDEF''"
proof -
  have "isHexDigit c \<longleftrightarrow> (of_char c :: nat) \<in> of_char ` set ''0123456789abcdefABCDEF''"
    unfolding isHexDigit_def Let_def hex_codes hex_chars ..
  also have "\<dots> \<longleftrightarrow> c \<in> set ''0123456789abcdefABCDEF''"
    by (rule inj_image_mem_iff) (rule inj_of_char)
  finally show ?thesis .
qed

text \<open>
  C9. The identifier validator is a total function from strings to booleans, with no
  access to the store: it answers true exactly on the strings of 24 hexadecimal
  characters, and false on every other string.
\<close>

theorem isValid_iff:
  "isValid s \<longleftrightarrow> length s = 24 \<and> set s \<subseteq> set ''0123456789abcdefABCDEF''"
  unfolding isValid_def list_all_iff isHexDigit_iff by blast

subsection \<open>A body that is not JSON\<close>

text \<open>
  C10, as the code has it. A POST whose body is not JSON, and a PUT whose identifier is
  well-formed and whose body is not JSON, answer 500 with the handler's fixed message:
  the failure of \<^verbatim>\<open>req.json()\<close> falls to the general branch of the catch.
\<close>

theorem unparseable_body_is_500:
  "fst (POST_products e None w) =
     \<lparr>status = 500, body = errorBody ''Failed to create product''\<rparr>
   \<and> (isValid ident \<longrightarrow>
        fst (PUT_product e ident None w) =
          \<lparr>status = 500, body = errorBody ''Internal server error''\<rparr>)"
  by (simp add: POST_products_def PUT_product_def PUT_product_catch_def)

text \<open>C10 at a well-formed identifier.\<close>

theorem unparseable_body_is_500_witness:
  "isValid ''6727cfbd0062ef926c94bc1d''
   \<and> fst (POST_products up None shop) =
       \<lparr>status = 500, body = errorBody ''Failed to create product''\<rparr>
   \<and> fst (PUT_product up ''6727cfbd0062ef926c94bc1d'' None shop) =
       \<lparr>status = 500, body = errorBody ''Internal server error''\<rparr>"
  using unparseable_body_is_500[of up shop "''6727cfbd0062ef926c94bc1d''"]
  by (simp add: isValid_def isHexDigit_def)

text \<open>
  C10, as stated, fails: a PUT with the malformed identifier \<^verbatim>\<open>abc\<close> and a body that
  is not JSON answers 400, since the identifier is checked before the body is read.
\<close>

theorem PUT_unparseable_body_counterexample:
  "fst (PUT_product up ''abc'' None shop) =
     \<lparr>status = 400, body = errorBody ''Invalid ID format''\<rparr>"
  by (simp add: PUT_product_def isValid_def)

end
